theory Spec2Isabelle
  imports Complex_Main
begin

section \<open>Latency scanner: data model (net\_scanner/config.py)\<close>



record ScanSummary =
  total_hosts :: int
  alive_hosts :: int
  dead_hosts :: int
  scan_duration :: real
  start_time :: "real option"
  end_time :: "real option"

text \<open>The two derived properties of \<open>ScanSummary\<close>, with the guard on an empty scan.\<close>

definition alive_percent :: "ScanSummary \<Rightarrow> real" where
  "alive_percent s =
     (if total_hosts s = 0 then 0
      else (real_of_int (alive_hosts s) / real_of_int (total_hosts s)) * 100)"

definition dead_percent :: "ScanSummary \<Rightarrow> real" where
  "dead_percent s =
     (if total_hosts s = 0 then 0
      else (real_of_int (dead_hosts s) / real_of_int (total_hosts s)) * 100)"


section \<open>Latency scanner: the two phases (net\_scanner/scanner.py)\<close>
































section \<open>Classifier (network\_discovery/discovery/device\_detector.py)\<close>

text \<open>
  Text is a list of characters with code points below 256. \<open>str.lower\<close> maps
  \<open>A\<close>--\<open>Z\<close> and the upper-case letters of Latin-1 to their lower-case forms and leaves
  every other character alone.
\<close>

definition lower_char :: "char \<Rightarrow> char" where
  "lower_char c =
     (let n = of_char c :: nat
      in if (65 \<le> n \<and> n \<le> 90) \<or> (192 \<le> n \<and> n \<le> 222 \<and> n \<noteq> 215)
         then char_of (n + 32) else c)"

definition lower :: "string \<Rightarrow> string" where
  "lower s = map lower_char s"

text \<open>
  The vendor signatures use a small part of the regular-expression language: literal
  characters, the classes \<open>\s\<close>, \<open>[0-9]\<close> and \<open>[c|s]\<close>, and the quantifier \<open>+\<close> on a
  class. A pattern is a sequence of items. \<open>re.search\<close> is used for its truth value
  only: it holds when the pattern matches at some position of the text.
\<close>

datatype char_class = Lit char | Space | Digit | Cls string

datatype item = One char_class | Plus char_class

type_synonym pattern = "item list"

fun in_class :: "char_class \<Rightarrow> char \<Rightarrow> bool" where
  "in_class (Lit a) c = (c = a)"
| "in_class Space c =
     (let n = of_char c :: nat
      in (9 \<le> n \<and> n \<le> 13) \<or> (28 \<le> n \<and> n \<le> 32) \<or> n = 133 \<or> n = 160)"
| "in_class Digit c = (let n = of_char c :: nat in 48 \<le> n \<and> n \<le> 57)"
| "in_class (Cls cs) c = (c \<in> set cs)"

fun match_here :: "pattern \<Rightarrow> string \<Rightarrow> bool" where
  "match_here [] s = True"
| "match_here (One k # p) [] = False"
| "match_here (One k # p) (c # s) = (in_class k c \<and> match_here p s)"
| "match_here (Plus k # p) [] = False"
| "match_here (Plus k # p) (c # s) =
     (in_class k c \<and> (match_here p s \<or> match_here (Plus k # p) s))"

fun re_search :: "pattern \<Rightarrow> string \<Rightarrow> bool" where
  "re_search p [] = match_here p []"
| "re_search p (c # s) = (match_here p (c # s) \<or> re_search p s)"

definition lit :: "string \<Rightarrow> pattern" where
  "lit s = map (\<lambda>c. One (Lit c)) s"

text \<open>\<open>sub in text\<close> on strings.\<close>

definition contains :: "string \<Rightarrow> string \<Rightarrow> bool" where
  "contains sub s = re_search (lit sub) s"

text \<open>The vendor table, in its declared order (a \<open>dict\<close> iterates in insertion order).\<close>

definition VENDOR_PATTERNS :: "(string \<times> pattern list) list" where
  "VENDOR_PATTERNS =
   [(''Cisco'',
       [lit ''cisco'', lit ''ios'', lit ''ios'' @ [Plus Space] @ lit ''xe'',
        lit ''ios'' @ [Plus Space] @ lit ''xr'', lit ''nexus'', lit ''asa'',
        lit ''cat'' @ [Plus Digit], lit ''ws-'' @ [One (Cls ''c|s'')],
        lit ''c'' @ [Plus Digit], lit ''asr'' @ [Plus Digit], lit ''isr'' @ [Plus Digit]]),
    (''Juniper'',
       [lit ''juniper'', lit ''junos'', lit ''srx'', lit ''ex'' @ [Plus Digit],
        lit ''mx'' @ [Plus Digit], lit ''ptx'' @ [Plus Digit], lit ''qfx'' @ [Plus Digit]]),
    (''HP/HPE/Aruba'',
       [lit ''procurve'', lit ''aruba'', lit ''hp'', lit ''comware'', lit ''1910'',
        lit ''2920'', lit ''3800'', lit ''5400'', lit ''8200'']),
    (''MikroTik'',
       [lit ''mikrotik'', lit ''routeros'', lit ''ccr'', lit ''rb'', lit ''hex'', lit ''hap'']),
    (''Arista'', [lit ''arista'', lit ''eos'', lit ''dcs'']),
    (''Palo Alto'', [lit ''palo'', lit ''pan-os'', lit ''pa-'' @ [Plus Digit]]),
    (''Fortinet'', [lit ''fortinet'', lit ''fortios'', lit ''fortigate'']),
    (''Ubiquiti'', [lit ''ubiquiti'', lit ''edgerouter'', lit ''edgeswitch'', lit ''unifi'']),
    (''Linux'',
       [lit ''linux'', lit ''ubuntu'', lit ''debian'', lit ''centos'',
        lit ''red'' @ [Plus Space] @ lit ''hat'', lit ''fedora'']),
    (''Huawei'',
       [lit ''huawei'', lit ''vrp'', lit ''ce'' @ [Plus Digit], lit ''ne'' @ [Plus Digit]]),
    (''Dell'', [lit ''dell'', lit ''powerconnect'', lit ''force10'', lit ''n'' @ [Plus Digit]]),
    (''Extreme'', [lit ''extreme'', lit ''exos'']),
    (''Brocade'', [lit ''brocade'', lit ''vdx'', lit ''netiron'', lit ''fastiron'']),
    (''Nokia'', [lit ''nokia'', lit ''sr'' @ [Plus Space] @ lit ''os'', lit ''alu''])]"

text \<open>
  The two nested loops of \<open>detect_vendor\<close>: vendors in table order, and for each vendor
  its patterns in order; the first pattern found in the lower-cased output decides.
\<close>

fun pattern_loop :: "pattern list \<Rightarrow> string \<Rightarrow> bool" where
  "pattern_loop [] output_lower = False"
| "pattern_loop (pattern # patterns) output_lower =
     (if re_search pattern output_lower then True else pattern_loop patterns output_lower)"

fun vendor_loop :: "(string \<times> pattern list) list \<Rightarrow> string \<Rightarrow> string option" where
  "vendor_loop [] output_lower = None"
| "vendor_loop ((vendor_name, patterns) # rest) output_lower =
     (if pattern_loop patterns output_lower then Some vendor_name
      else vendor_loop rest output_lower)"

text \<open>The keyword fallback that follows the loops.\<close>

definition keyword_vendor :: "string \<Rightarrow> string option" where
  "keyword_vendor output_lower =
     (if contains ''cisco'' output_lower then Some ''Cisco''
      else if contains ''juniper'' output_lower then Some ''Juniper''
      else if contains ''mikrotik'' output_lower then Some ''MikroTik''
      else if contains ''linux'' output_lower then Some ''Linux''
      else None)"

text \<open>
  The detector's state is its cache, a dictionary from \<open>hash(output[:500])\<close> to the
  stored pair (vendor, model). The model takes the hash to be injective, so the key is
  the first 500 characters themselves. \<open>_extract_model\<close> (regular expressions with a
  capture group) is the parameter \<open>xm\<close>, from the output and the vendor to the model:
  the vendor does not depend on it.
\<close>

type_synonym cache = "string \<rightharpoonup> (string option \<times> string option)"

definition detect_vendor ::
  "(string \<Rightarrow> string \<Rightarrow> string option) \<Rightarrow> cache \<Rightarrow> string
     \<Rightarrow> (string option \<times> string option) \<times> cache"
where
  "detect_vendor xm cache output =
     (let output_lower = lower output;
          cache_key = take 500 output
      in case cache cache_key of
           Some hit \<Rightarrow> (hit, cache)
         | None \<Rightarrow>
             (case vendor_loop VENDOR_PATTERNS output_lower of
                Some vendor_name \<Rightarrow>
                  (let model = xm output vendor_name
                   in ((Some vendor_name, model), cache(cache_key \<mapsto> (Some vendor_name, model))))
              | None \<Rightarrow>
                  (case keyword_vendor output_lower of
                     Some vendor \<Rightarrow>
                       (let model = xm output vendor
                        in ((Some vendor, model), cache(cache_key \<mapsto> (Some vendor, model))))
                   | None \<Rightarrow> ((None, None), cache))))"

text \<open>\<open>str.strip()\<close> removes white space at both ends.\<close>

definition strip :: "string \<Rightarrow> string" where
  "strip s = rev (dropWhile (in_class Space) (rev (dropWhile (in_class Space) s)))"

text \<open>
  \<open>determine_device_type\<close>. The sub-type table keeps its declared order; no vendor has
  an empty sub-table, so taking the first value never fails.
\<close>

definition VENDOR_TO_DEVICE_TYPE :: "(string \<times> (string \<times> string) list) list" where
  "VENDOR_TO_DEVICE_TYPE =
   [(''Cisco'',
       [(''ios'', ''cisco_ios''), (''ios-xe'', ''cisco_xe''), (''ios-xr'', ''cisco_xr''),
        (''nx-os'', ''cisco_nxos''), (''asa'', ''cisco_asa''), (''s300'', ''cisco_s300''),
        (''wlc'', ''cisco_wlc''), (''ios-telnet'', ''cisco_ios_telnet''),
        (''xe-telnet'', ''cisco_xe_telnet'')]),
    (''Juniper'',
       [(''junos'', ''juniper''), (''junos-telnet'', ''juniper_telnet''),
        (''screenos'', ''juniper_screenos'')]),
    (''HP/HPE/Aruba'',
       [(''procurve'', ''hp_procurve''), (''comware'', ''hp_comware''),
        (''aruba'', ''aruba_osswitch''), (''procurve-telnet'', ''hp_procurve_telnet'')]),
    (''MikroTik'',
       [(''routeros'', ''mikrotik_routeros''),
        (''routeros-telnet'', ''mikrotik_routeros_telnet'')]),
    (''Arista'', [(''eos'', ''arista_eos''), (''eos-telnet'', ''arista_eos_telnet'')]),
    (''Palo Alto'',
       [(''pan-os'', ''paloalto_panos''), (''pan-os-telnet'', ''paloalto_panos_telnet'')]),
    (''Fortinet'', [(''fortios'', ''fortinet''), (''fortios-telnet'', ''fortinet_telnet'')]),
    (''Ubiquiti'', [(''edge'', ''ubiquiti_edge''), (''edgeswitch'', ''ubiquiti_edgeswitch'')]),
    (''Linux'', [(''linux'', ''linux''), (''linux-telnet'', ''linux_telnet'')]),
    (''Huawei'', [(''vrp'', ''huawei''), (''vrp-telnet'', ''huawei_telnet'')]),
    (''Dell'',
       [(''powerconnect'', ''dell_powerconnect''), (''force10'', ''dell_force10''),
        (''os6'', ''dell_os6''), (''os10'', ''dell_os10'')])]"

definition replace_dash :: "string \<Rightarrow> string" where
  "replace_dash s = map (\<lambda>c. if c = CHR ''-'' then CHR '' '' else c) s"

fun subtype_loop :: "(string \<times> string) list \<Rightarrow> string \<Rightarrow> string option" where
  "subtype_loop [] output_lower = None"
| "subtype_loop ((subtype, device_type) # rest) output_lower =
     (if contains (replace_dash subtype) output_lower then Some device_type
      else subtype_loop rest output_lower)"

definition determine_device_type :: "string \<Rightarrow> string \<Rightarrow> string option" where
  "determine_device_type vendor output =
     (if vendor = [] then None
      else let output_lower = lower output
      in if vendor = ''Cisco'' then
           (if contains ''asa'' output_lower then Some ''cisco_asa''
            else if contains ''nexus'' output_lower \<or> contains ''nx-os'' output_lower
              then Some ''cisco_nxos''
            else if contains ''ios-xe'' output_lower then Some ''cisco_xe''
            else if contains ''ios-xr'' output_lower then Some ''cisco_xr''
            else Some ''cisco_ios'')
         else (case map_of VENDOR_TO_DEVICE_TYPE vendor of
                 Some subtypes \<Rightarrow>
                   (case subtype_loop subtypes output_lower of
                      Some device_type \<Rightarrow> Some device_type
                    | None \<Rightarrow> (case subtypes of [] \<Rightarrow> None | first # _ \<Rightarrow> Some (snd first)))
               | None \<Rightarrow> None))"

text \<open>
  \<open>analyze_output\<close> returns a dictionary from field names to optional strings. The
  three extraction functions built on capture groups (\<open>_extract_model\<close>,
  \<open>extract_version\<close>, \<open>extract_serial\<close>) are parameters, gathered in a record.
\<close>

record extractors =
  extract_model :: "string \<Rightarrow> string \<Rightarrow> string option"
  extract_version :: "string \<Rightarrow> string option"
  extract_serial :: "string \<Rightarrow> string option"

type_synonym device_info = "string \<rightharpoonup> string option"

definition dict_get :: "device_info \<Rightarrow> string \<Rightarrow> string option" where
  "dict_get d k = (case d k of None \<Rightarrow> None | Some v \<Rightarrow> v)"

definition analyze_output :: "extractors \<Rightarrow> cache \<Rightarrow> string \<Rightarrow> device_info \<times> cache" where
  "analyze_output X cache output =
     (let result = [''raw_output'' \<mapsto> Some (take 1000 output), ''vendor'' \<mapsto> None,
                    ''model'' \<mapsto> None, ''os_version'' \<mapsto> None,
                    ''serial_number'' \<mapsto> None, ''device_type'' \<mapsto> None]
      in if output = [] \<or> length (strip output) < 10 then (result, cache)
         else (case detect_vendor (extract_model X) cache output of
                 ((vendor, model), cache') \<Rightarrow>
                   (let result1 = result(''vendor'' \<mapsto> vendor, ''model'' \<mapsto> model,
                                     ''os_version'' \<mapsto> extract_version X output,
                                     ''serial_number'' \<mapsto> extract_serial X output)
                    in (case vendor of
                          Some v \<Rightarrow>
                            if v \<noteq> [] then
                              (result1(''device_type'' \<mapsto> determine_device_type v output), cache')
                            else (result1, cache')
                        | None \<Rightarrow> (result1, cache')))))"

section \<open>Discovery: credentials and device records (network\_discovery/models/device.py)\<close>

record DeviceCredentials =
  username :: string
  password :: string
  enable_password :: "string option"
  ssh_port :: int
  telnet_port :: int
  ssh_timeout :: int
  telnet_timeout :: int
  description :: string


text \<open>
  \<open>DiscoveredDevice\<close>. The fields copied from the credential carry the prefix
  \<open>dev_\<close> here, since a field name can belong to one record only. \<open>valid_ip\<close> stands
  for \<open>ipaddress.ip_address\<close> accepting the string, \<open>now\<close> for the clock's reading.
\<close>

record DiscoveredDevice =
  ip_address :: string
  hostname :: "string option"
  device_type :: "string option"
  vendor :: "string option"
  model :: "string option"
  os_version :: "string option"
  serial_number :: "string option"
  dev_username :: "string option"
  dev_password :: "string option"
  dev_enable_password :: "string option"
  dev_ssh_port :: int
  dev_telnet_port :: int
  snmp_community :: "string option"
  protocol :: string
  capabilities :: "string list"
  status :: string
  last_seen :: string

definition device_post_init ::
  "(string \<Rightarrow> bool) \<Rightarrow> DiscoveredDevice \<Rightarrow> string + DiscoveredDevice"
where
  "device_post_init valid_ip d =
     (if valid_ip (ip_address d) then Inr d else Inl ''ValueError: bad IP address'')"

datatype transport = SSH | TELNET

definition from_discovery ::
  "transport \<Rightarrow> (string \<Rightarrow> bool) \<Rightarrow> string \<Rightarrow> string \<Rightarrow> DeviceCredentials \<Rightarrow> device_info
     \<Rightarrow> string list \<Rightarrow> string + DiscoveredDevice"
where
  "from_discovery t valid_ip now addr credentials info caps =
     device_post_init valid_ip
       \<lparr>ip_address = addr,
        hostname = dict_get info ''hostname'',
        device_type = dict_get info ''device_type'',
        vendor = dict_get info ''vendor'',
        model = dict_get info ''model'',
        os_version = dict_get info ''os_version'',
        serial_number = dict_get info ''serial_number'',
        dev_username = Some (username credentials),
        dev_password = Some (password credentials),
        dev_enable_password = enable_password credentials,
        dev_ssh_port = (case t of SSH \<Rightarrow> ssh_port credentials | TELNET \<Rightarrow> 22),
        dev_telnet_port = (case t of SSH \<Rightarrow> 23 | TELNET \<Rightarrow> telnet_port credentials),
        snmp_community = None,
        protocol = (case t of SSH \<Rightarrow> ''ssh'' | TELNET \<Rightarrow> ''telnet''),
        capabilities = caps,
        status = ''active'',
        last_seen = now\<rparr>"

definition from_ssh_discovery ::
  "(string \<Rightarrow> bool) \<Rightarrow> string \<Rightarrow> string \<Rightarrow> DeviceCredentials \<Rightarrow> device_info
     \<Rightarrow> string list \<Rightarrow> string + DiscoveredDevice"
where
  "from_ssh_discovery = from_discovery SSH"

definition from_telnet_discovery ::
  "(string \<Rightarrow> bool) \<Rightarrow> string \<Rightarrow> string \<Rightarrow> DeviceCredentials \<Rightarrow> device_info
     \<Rightarrow> string list \<Rightarrow> string + DiscoveredDevice"
where
  "from_telnet_discovery = from_discovery TELNET"

text \<open>
  For the closed instances below: 500 characters that no vendor signature can start
  with, and the test that a pattern cannot start with a given character.
\<close>

definition padding :: string where
  "padding = replicate 500 (CHR ''z'')"

fun starts_without :: "char \<Rightarrow> pattern \<Rightarrow> bool" where
  "starts_without c [] = False"
| "starts_without c (One k # p) = (\<not> in_class k c)"
| "starts_without c (Plus k # p) = (\<not> in_class k c)"

section \<open>Port probe (network\_discovery/discovery/port\_scanner.py)\<close>

text \<open>
  A call into the socket library either returns or raises. The operating system is a
  record: whether creating a socket fails, whether an address string is one an
  \<open>AF_INET\<close> socket accepts (a dotted IPv4 address or a name that resolves), and the
  error number the C-level \<open>connect\<close> gives for an address and a port. The library's own
  argument checks are written out: \<open>settimeout\<close> raises \<open>ValueError\<close> for a negative
  value, \<open>connect_ex\<close> raises \<open>OverflowError\<close> for a port outside 0..65535 and
  \<open>gaierror\<close> for an address it cannot use, and otherwise returns the error number
  instead of raising. The state is the number of sockets that are open.
\<close>

datatype 'a outcome = Returns 'a | Raises string

record os_env =
  new_socket :: "unit outcome"
  resolves :: "string \<Rightarrow> bool"
  connect_errno :: "string \<Rightarrow> int \<Rightarrow> int"

definition settimeout :: "int \<Rightarrow> unit outcome" where
  "settimeout t = (if t < 0 then Raises ''ValueError'' else Returns ())"

definition connect_ex :: "os_env \<Rightarrow> string \<Rightarrow> int \<Rightarrow> int outcome" where
  "connect_ex os addr port =
     (if port < 0 \<or> 65535 < port then Raises ''OverflowError''
      else if \<not> resolves os addr then Raises ''gaierror''
      else Returns (connect_errno os addr port))"

text \<open>
  \<open>scan_single_port\<close>: the \<open>try\<close> block creates the socket, sets the timeout,
  connects and closes; the \<open>except Exception\<close> handler logs and returns
  \<open>(port, False)\<close>. It has no \<open>finally\<close>.
\<close>

definition scan_single_port ::
  "os_env \<Rightarrow> int \<Rightarrow> string \<Rightarrow> int \<Rightarrow> nat \<Rightarrow> (int \<times> bool) \<times> nat"
where
  "scan_single_port os tmo addr port open_sockets =
     (case new_socket os of
        Raises e \<Rightarrow> ((port, False), open_sockets)
      | Returns _ \<Rightarrow>
          (let opened = open_sockets + 1
           in case settimeout tmo of
                Raises e \<Rightarrow> ((port, False), opened)
              | Returns _ \<Rightarrow>
                  (case connect_ex os addr port of
                     Raises e \<Rightarrow> ((port, False), opened)
                   | Returns result \<Rightarrow> ((port, result = 0), opened - 1))))"

section \<open>Protocol surface (network\_discovery/connectors/protocol\_detector.py)\<close>

text \<open>The catalogue, in its declared order.\<close>

definition PROTOCOL_PORTS :: "(string \<times> int list) list" where
  "PROTOCOL_PORTS =
   [(''ssh'', [22, 2222, 22222]), (''telnet'', [23, 2323]), (''snmp'', [161]),
    (''http'', [80, 8080]), (''https'', [443, 8443]), (''netconf'', [830]),
    (''ftp'', [21]), (''tftp'', [69]), (''syslog'', [514]), (''radius'', [1812, 1813]),
    (''tacacs'', [49]), (''dns'', [53]), (''ntp'', [123]), (''ldap'', [389, 636]),
    (''kerberos'', [88])]"

text \<open>
  \<open>protocol_info\<close> is one dictionary with values of three kinds: the list of open
  ports, a flag per protocol, and the matched port under the key
  \<open>protocol + ''_port''\<close>. \<open>get_flag\<close> is \<open>protocol_info.get(key, False)\<close> read as a
  truth value.
\<close>

datatype info_value = Ports "int list" | Flag bool | Port int

type_synonym protocol_info = "string \<rightharpoonup> info_value"

fun truthy :: "info_value \<Rightarrow> bool" where
  "truthy (Ports ps) = (ps \<noteq> [])"
| "truthy (Flag b) = b"
| "truthy (Port n) = (n \<noteq> 0)"

definition get_flag :: "protocol_info \<Rightarrow> string \<Rightarrow> bool" where
  "get_flag info key = (case info key of None \<Rightarrow> False | Some v \<Rightarrow> truthy v)"

text \<open>The inner loop with its \<open>break\<close>: the first candidate port that is open.\<close>

fun port_loop :: "string \<Rightarrow> int list \<Rightarrow> int list \<Rightarrow> protocol_info \<Rightarrow> protocol_info" where
  "port_loop proto [] open_ports info = info"
| "port_loop proto (port # ports) open_ports info =
     (if port \<in> set open_ports then info(proto @ ''_port'' \<mapsto> Port port)
      else port_loop proto ports open_ports info)"

fun protocol_loop ::
  "(string \<times> int list) list \<Rightarrow> int list \<Rightarrow> protocol_info \<Rightarrow> protocol_info"
where
  "protocol_loop [] open_ports info = info"
| "protocol_loop ((proto, ports) # rest) open_ports info =
     (let is_open = list_ex (\<lambda>port. port \<in> set open_ports) ports;
          info1 = info(proto \<mapsto> Flag is_open);
          info2 = (if is_open then port_loop proto ports open_ports info1 else info1)
      in protocol_loop rest open_ports info2)"

text \<open>
  \<open>detect_all_protocols\<close>. \<open>scan\<close> is \<open>self.port_scanner.scan_ports\<close>: for a host and
  a list of ports it gives the open ones, in the order in which the probes completed.
\<close>

definition detect_all_protocols ::
  "(string \<Rightarrow> int list \<Rightarrow> int list) \<Rightarrow> string \<Rightarrow> protocol_info"
where
  "detect_all_protocols scan addr =
     (let all_ports = concat (map snd PROTOCOL_PORTS);
          open_ports = scan addr all_ports;
          info1 = protocol_loop PROTOCOL_PORTS open_ports [''open_ports'' \<mapsto> Ports open_ports];
          info2 = info1(''has_management'' \<mapsto>
                    Flag (get_flag info1 ''ssh'' \<or> get_flag info1 ''telnet''))
      in info2(''has_web'' \<mapsto> Flag (get_flag info2 ''http'' \<or> get_flag info2 ''https'')))"

section \<open>Discovery engine (network\_discovery/discovery/engine.py)\<close>

text \<open>
  The network as the engine sees it: the port scan, the outcome \<open>(success, error)\<close> of a
  client's \<open>connect\<close>, and the outcome \<open>(success, output)\<close> of a command, per transport,
  host and credential. Both clients catch every exception themselves and return these
  pairs.

  The engine's state is the detector's cache and a log. The log is instrumentation: it
  records each port scan and each call of \<open>discover_via_ssh\<close> or
  \<open>discover_via_telnet\<close>, in the order of the calls.
\<close>

record network =
  scan_ports :: "string \<Rightarrow> int list \<Rightarrow> int list"
  connect :: "transport \<Rightarrow> string \<Rightarrow> DeviceCredentials \<Rightarrow> bool \<times> string option"
  run_command :: "transport \<Rightarrow> string \<Rightarrow> DeviceCredentials \<Rightarrow> string \<Rightarrow> bool \<times> string"

datatype event = Scan string | Attempt transport string DeviceCredentials

record engine =
  detector_cache :: cache
  events :: "event list"

definition DISCOVERY_COMMANDS :: "string list" where
  "DISCOVERY_COMMANDS =
   [''show version'', ''show ver'', ''version'', ''display version'', ''cat /etc/os-release'',
    ''uname -a'', ''/system resource print'', ''get system status'', ''show system'',
    ''show inventory'']"

text \<open>The command loop: the first command whose output has more than 10 characters
  after stripping.\<close>

fun commands_loop :: "(string \<Rightarrow> bool \<times> string) \<Rightarrow> string list \<Rightarrow> string option" where
  "commands_loop run [] = None"
| "commands_loop run (command # rest) =
     (case run command of
        (success, output) \<Rightarrow>
          if success \<and> output \<noteq> [] \<and> 10 < length (strip output) then Some output
          else commands_loop run rest)"

text \<open>
  \<open>discover_via_ssh\<close> and \<open>discover_via_telnet\<close> have the same body up to the client
  they use.
\<close>

definition discover_via ::
  "transport \<Rightarrow> network \<Rightarrow> extractors \<Rightarrow> cache \<Rightarrow> string \<Rightarrow> DeviceCredentials
     \<Rightarrow> device_info option \<times> cache"
where
  "discover_via t net X cache addr credentials =
     (case connect net t addr credentials of
        (success, error) \<Rightarrow>
          if \<not> success then (None, cache)
          else (case commands_loop (run_command net t addr credentials) DISCOVERY_COMMANDS of
                  None \<Rightarrow> (None, cache)
                | Some output \<Rightarrow>
                    (case analyze_output X cache output of
                       (info, cache') \<Rightarrow>
                         (case run_command net t addr credentials ''hostname'' of
                            (hostname_success, hostname_output) \<Rightarrow>
                              if hostname_success \<and> hostname_output \<noteq> []
                              then (Some (info(''hostname'' \<mapsto> Some (strip hostname_output))), cache')
                              else (Some (info(''hostname'' \<mapsto> Some addr)), cache')))))"

definition discover_via_ssh ::
  "network \<Rightarrow> extractors \<Rightarrow> cache \<Rightarrow> string \<Rightarrow> DeviceCredentials \<Rightarrow> device_info option \<times> cache"
where
  "discover_via_ssh = discover_via SSH"

definition discover_via_telnet ::
  "network \<Rightarrow> extractors \<Rightarrow> cache \<Rightarrow> string \<Rightarrow> DeviceCredentials \<Rightarrow> device_info option \<times> cache"
where
  "discover_via_telnet = discover_via TELNET"

text \<open>
  The loop \<open>for creds in credentials_list\<close> of one transport: it returns at the first
  credential for which the discovery gives a dictionary.
\<close>

fun credentials_loop ::
  "transport \<Rightarrow> network \<Rightarrow> extractors \<Rightarrow> string \<Rightarrow> DeviceCredentials list \<Rightarrow> engine
     \<Rightarrow> (DeviceCredentials \<times> device_info) option \<times> engine"
where
  "credentials_loop t net X addr [] eng = (None, eng)"
| "credentials_loop t net X addr (creds # rest) eng =
     (case discover_via t net X (detector_cache eng) addr creds of
        (found, cache') \<Rightarrow>
          (let eng1 = \<lparr>detector_cache = cache', events = events eng @ [Attempt t addr creds]\<rparr>
           in case found of
                Some info \<Rightarrow> (Some (creds, info), eng1)
              | None \<Rightarrow> credentials_loop t net X addr rest eng1))"

definition get_capabilities :: "protocol_info \<Rightarrow> string list" where
  "get_capabilities info =
     filter (get_flag info)
       [''ssh'', ''telnet'', ''http'', ''https'', ''snmp'', ''netconf'', ''ftp'', ''tftp'']"

text \<open>
  \<open>discover_single_device\<close>. \<open>Inl\<close> is the \<open>ValueError\<close> that building the device
  record raises for a string that is not an IP address; \<open>Inr None\<close> is the plain
  \<open>return None\<close>.
\<close>

definition discover_single_device ::
  "network \<Rightarrow> extractors \<Rightarrow> (string \<Rightarrow> bool) \<Rightarrow> string \<Rightarrow> engine \<Rightarrow> string
     \<Rightarrow> DeviceCredentials list \<Rightarrow> (string + DiscoveredDevice option) \<times> engine"
where
  "discover_single_device net X valid_ip now eng addr credentials_list =
     (let info = detect_all_protocols (scan_ports net) addr;
          eng0 = eng\<lparr>events := events eng @ [Scan addr]\<rparr>
      in if \<not> get_flag info ''has_management'' then (Inr None, eng0)
         else
           (case (if get_flag info ''ssh''
                  then credentials_loop SSH net X addr credentials_list eng0
                  else (None, eng0)) of
              (Some (creds, device_info), eng1) \<Rightarrow>
                (map_sum id Some
                   (from_ssh_discovery valid_ip now addr creds device_info (get_capabilities info)),
                 eng1)
            | (None, eng1) \<Rightarrow>
                (case (if get_flag info ''telnet''
                       then credentials_loop TELNET net X addr credentials_list eng1
                       else (None, eng1)) of
                   (Some (creds, device_info), eng2) \<Rightarrow>
                     (map_sum id Some
                        (from_telnet_discovery valid_ip now addr creds device_info
                           (get_capabilities info)),
                      eng2)
                 | (None, eng2) \<Rightarrow> (Inr None, eng2))))"








text \<open>
  For the statements about the order of attempts: a session yields when the client
  connects and some discovery command gives usable output, which is when
  \<open>discover_via\<close> returns a dictionary; \<open>tried ok cs\<close> is the part of the list \<open>cs\<close>
  up to and including its first element that satisfies \<open>ok\<close>, the whole list when there
  is none.
\<close>

definition session_yields :: "transport \<Rightarrow> network \<Rightarrow> string \<Rightarrow> DeviceCredentials \<Rightarrow> bool" where
  "session_yields t net addr c =
     (fst (connect net t addr c)
      \<and> commands_loop (run_command net t addr c) DISCOVERY_COMMANDS \<noteq> None)"

definition tried :: "('a \<Rightarrow> bool) \<Rightarrow> 'a list \<Rightarrow> 'a list" where
  "tried ok cs =
     (case find ok cs of None \<Rightarrow> cs | Some c \<Rightarrow> takeWhile (\<lambda>x. \<not> ok x) cs @ [c])"

text \<open>
  Concrete surroundings for the closed instances: an operating system in which only
  \<open>10.0.0.5\<close> is an address an IPv4 socket accepts and only its port 22 accepts the
  connection (every other port refuses, error 111), and a port scan that finds 2222, 23
  and 22 open, completed in that order.
\<close>

definition demo_os :: os_env where
  "demo_os =
     \<lparr>new_socket = Returns (), resolves = (\<lambda>addr. addr = ''10.0.0.5''),
      connect_errno = (\<lambda>addr port. if port = 22 then 0 else 111)\<rparr>"

definition demo_scan :: "string \<Rightarrow> int list \<Rightarrow> int list" where
  "demo_scan addr ports = filter (\<lambda>port. port \<in> set ports) [2222, 23, 22]"

text \<open>
  A concrete network: the host \<open>10.0.0.5\<close> with the ports above open, whose SSH
  server accepts the user \<open>carol\<close> only and answers \<open>show version\<close> with a Cisco
  banner, and whose Telnet server accepts nobody; three credentials in the order alice,
  bob, carol; extraction functions that find nothing; an engine in its initial state.
\<close>

definition demo_net :: network where
  "demo_net =
     \<lparr>scan_ports = demo_scan,
      connect = (\<lambda>t addr c. (t = SSH \<and> username c = ''carol'', None)),
      run_command = (\<lambda>t addr c command.
         if command = ''show version''
         then (True, ''Cisco IOS Software, C2960 Software, Version 15.0'')
         else (False, ''error''))\<rparr>"

definition demo_credentials :: "string \<Rightarrow> DeviceCredentials" where
  "demo_credentials name =
     \<lparr>username = name, password = name, enable_password = None, ssh_port = 22,
      telnet_port = 23, ssh_timeout = 10, telnet_timeout = 10, description = []\<rparr>"

definition demo_extractors :: extractors where
  "demo_extractors =
     \<lparr>extract_model = (\<lambda>output vendor. None), extract_version = (\<lambda>output. None),
      extract_serial = (\<lambda>output. None)\<rparr>"

definition demo_engine :: engine where
  "demo_engine = \<lparr>detector_cache = Map.empty, events = []\<rparr>"

section \<open>Expansion of CIDR ranges (ip\_parser.py, port\_scanner.py)\<close>











section \<open>Properties of the scan summary\<close>

text \<open>
  Claim C9. \<open>alive_percent\<close> is 0.0 whenever \<open>total_hosts\<close> is 0, whatever the other
  fields hold (the division is never reached), and 50.0 for one alive host out of two;
  \<open>dead_percent\<close> is likewise 0.0 whenever \<open>total_hosts\<close> is 0.
\<close>

theorem summary_percentages:
  "alive_percent (s\<lparr>total_hosts := 0\<rparr>) = 0
   \<and> dead_percent (s\<lparr>total_hosts := 0\<rparr>) = 0
   \<and> alive_percent (s\<lparr>total_hosts := 2, alive_hosts := 1\<rparr>) = 50"
  by (simp add: alive_percent_def dead_percent_def)

section \<open>Properties of the latency scan\<close>































section \<open>Properties of the classifier\<close>

lemma lower_replicate_z: "lower (replicate n (CHR ''z'') @ s) = replicate n (CHR ''z'') @ lower s"
  by (simp add: lower_def lower_char_def)

lemma re_search_skip_One:
  "\<not> in_class k c \<Longrightarrow> re_search (One k # p) (replicate n c @ s) = re_search (One k # p) s"
  by (induction n) simp_all

lemma re_search_skip_Plus:
  "\<not> in_class k c \<Longrightarrow> re_search (Plus k # p) (replicate n c @ s) = re_search (Plus k # p) s"
  by (induction n) simp_all

lemma take_padding: "take 500 (padding @ s) = padding"
  by (simp add: padding_def)

lemma re_search_skip:
  "starts_without c p \<Longrightarrow> re_search p (replicate n c @ s) = re_search p s"
  by (cases "(c, p)" rule: starts_without.cases)
     (simp_all add: re_search_skip_One re_search_skip_Plus)

lemma pattern_loop_skip:
  "list_all (starts_without c) ps \<Longrightarrow>
   pattern_loop ps (replicate n c @ s) = pattern_loop ps s"
  by (induction ps) (simp_all add: re_search_skip)

lemma vendor_loop_skip:
  "list_all (\<lambda>entry. list_all (starts_without c) (snd entry)) table \<Longrightarrow>
   vendor_loop table (replicate n c @ s) = vendor_loop table s"
  by (induction table s rule: vendor_loop.induct) (simp_all add: pattern_loop_skip)

lemma no_pattern_starts_with_z:
  "list_all (\<lambda>entry. list_all (starts_without (CHR ''z'')) (snd entry)) VENDOR_PATTERNS"
  by code_simp

lemma vendor_padding:
  "vendor_loop VENDOR_PATTERNS (lower (padding @ s)) = vendor_loop VENDOR_PATTERNS (lower s)"
  unfolding padding_def lower_replicate_z
  by (rule vendor_loop_skip[OF no_pattern_starts_with_z])

lemma vendor_examples:
  "vendor_loop VENDOR_PATTERNS (lower '' juniper'') = Some ''Juniper''"
  "vendor_loop VENDOR_PATTERNS (lower '' cisco juniper'') = Some ''Cisco''"
  "vendor_loop VENDOR_PATTERNS (lower '' juniper cisco'') = Some ''Cisco''"
  by code_simp+

text \<open>
  On a cache miss the vendor is decided by table order: an output in which one of the
  Cisco signatures occurs is classified as Cisco, whatever else it mentions and wherever.
\<close>

lemma detect_vendor_miss_table_order:
  assumes "cache (take 500 output) = None"
    and "pattern_loop (snd (hd VENDOR_PATTERNS)) (lower output)"
  shows "fst (fst (detect_vendor xm cache output)) = Some ''Cisco''"
proof -
  obtain rest where t: "VENDOR_PATTERNS = (''Cisco'', snd (hd VENDOR_PATTERNS)) # rest"
    by (simp add: VENDOR_PATTERNS_def)
  have "vendor_loop VENDOR_PATTERNS (lower output) = Some ''Cisco''"
    by (subst t) (simp add: assms(2))
  with assms(1) show ?thesis by (simp add: detect_vendor_def Let_def)
qed

text \<open>
  Claim C5, at the input where the code departs from it. The output \<open>padding @ '' cisco
  juniper''\<close> mentions both vendors. A detector with an empty cache classifies it as
  Cisco, the first vendor of the table. A detector that has classified \<open>padding @ ''
  juniper''\<close> before holds the entry for the shared first 500 characters and classifies
  the same output as Juniper: the outcome for one and the same raw input depends on what
  was classified earlier, and the table order does not decide it.
\<close>

theorem detect_vendor_replays_cached_prefix:
  "detect_vendor (\<lambda>output vendor. None) Map.empty (padding @ '' cisco juniper'')
     = ((Some ''Cisco'', None), [padding \<mapsto> (Some ''Cisco'', None)])
   \<and> detect_vendor (\<lambda>output vendor. None) Map.empty (padding @ '' juniper'')
     = ((Some ''Juniper'', None), [padding \<mapsto> (Some ''Juniper'', None)])
   \<and> detect_vendor (\<lambda>output vendor. None) [padding \<mapsto> (Some ''Juniper'', None)]
        (padding @ '' cisco juniper'')
     = ((Some ''Juniper'', None), [padding \<mapsto> (Some ''Juniper'', None)])"
  by (simp add: detect_vendor_def take_padding vendor_padding vendor_examples del: take_append)


section \<open>Properties of the port probe\<close>

text \<open>
  The probe always returns its pair: the port, and \<open>True\<close> exactly when the socket
  was created, the timeout was accepted and the connection returned 0. When
  \<open>connect_ex\<close> returns, the socket is closed again.
\<close>

lemma scan_single_port_result:
  "fst (fst (scan_single_port os tmo addr port n)) = port"
  "snd (fst (scan_single_port os tmo addr port n)) \<longleftrightarrow>
     new_socket os = Returns () \<and> settimeout tmo = Returns ()
     \<and> connect_ex os addr port = Returns 0"
  by (auto simp: scan_single_port_def Let_def split: outcome.splits)

lemma scan_single_port_closes_after_connect:
  "new_socket os = Returns () \<Longrightarrow> settimeout tmo = Returns () \<Longrightarrow>
   connect_ex os addr port = Returns result \<Longrightarrow>
   snd (scan_single_port os tmo addr port n) = n"
  by (simp add: scan_single_port_def)

text \<open>
  Claim C3, at the input where the code departs from it. For the reachable port the
  probe answers \<open>True\<close> and for the refusing port \<open>False\<close>, both with no socket left
  open. For the IPv6 target \<open>::1\<close> the call of \<open>connect_ex\<close> raises, and for the
  timeout \<open>-1\<close> the call of \<open>settimeout\<close> does; the handler returns
  \<open>(22, False)\<close>, so nothing is raised past the probe, but \<open>sock.close()\<close> is
  skipped and the socket it created is still open on return.
\<close>

theorem scan_single_port_leaves_socket_open:
  "scan_single_port demo_os 3 ''10.0.0.5'' 22 0 = ((22, True), 0)
   \<and> scan_single_port demo_os 3 ''10.0.0.5'' 23 0 = ((23, False), 0)
   \<and> scan_single_port demo_os 3 ''::1'' 22 0 = ((22, False), 1)
   \<and> scan_single_port demo_os (- 1) ''10.0.0.5'' 22 0 = ((22, False), 1)"
  by (simp add: scan_single_port_def demo_os_def settimeout_def connect_ex_def)

section \<open>Properties of the protocol surface\<close>

lemma port_loop_other:
  "key \<noteq> proto @ ''_port'' \<Longrightarrow> port_loop proto ports ops info key = info key"
  by (induction ports) auto


lemma protocol_loop_other:
  "key \<notin> fst ` set cat \<Longrightarrow> key \<notin> (\<lambda>p. p @ ''_port'') ` fst ` set cat \<Longrightarrow>
   protocol_loop cat ops info key = info key"
  by (induction cat ops info rule: protocol_loop.induct)
     (auto simp: Let_def port_loop_other)

lemma protocol_loop_flag:
  "distinct (map fst cat) \<Longrightarrow> \<forall>p \<in> fst ` set cat. \<forall>q \<in> fst ` set cat. p \<noteq> q @ ''_port'' \<Longrightarrow>
   (proto, ports) \<in> set cat \<Longrightarrow>
   protocol_loop cat ops info proto = Some (Flag (\<exists>port \<in> set ports. port \<in> set ops))"
proof (induction cat ops info rule: protocol_loop.induct)
  case (1 ops info)
  then show ?case by simp
next
  case (2 q qports rest ops info)
  show ?case
  proof (cases "proto = q")
    case True
    with 2(2,4) have eq: "ports = qports" by (auto simp: image_iff)
    have a: "q \<notin> fst ` set rest" using 2(2) by auto
    have b: "q \<notin> (\<lambda>p. p @ ''_port'') ` fst ` set rest" using 2(3) by auto
    show ?thesis
      using True eq
      by (simp add: Let_def protocol_loop_other[OF a b] port_loop_other list_ex_iff)
  next
    case False
    with 2(4) have "(proto, ports) \<in> set rest" by auto
    moreover have "distinct (map fst rest)" using 2(2) by simp
    moreover have "\<forall>p \<in> fst ` set rest. \<forall>q \<in> fst ` set rest. p \<noteq> q @ ''_port''"
      using 2(3) by auto
    ultimately show ?thesis using 2(1) by (simp add: Let_def)
  qed
qed



lemma catalogue_keys:
  "distinct (map fst PROTOCOL_PORTS)"
  "\<forall>p \<in> fst ` set PROTOCOL_PORTS. \<forall>q \<in> fst ` set PROTOCOL_PORTS. p \<noteq> q @ ''_port''"
  "\<forall>key \<in> {''open_ports'', ''has_management'', ''has_web''}.
     key \<notin> fst ` set PROTOCOL_PORTS \<and> key \<notin> (\<lambda>p. p @ ''_port'') ` fst ` set PROTOCOL_PORTS"
  by (simp_all add: PROTOCOL_PORTS_def)






section \<open>Properties of the discovery engine\<close>

lemma tried_Nil [simp]: "tried ok [] = []"
  by (simp add: tried_def)

lemma tried_Cons [simp]: "tried ok (c # cs) = (if ok c then [c] else c # tried ok cs)"
  by (simp add: tried_def split: option.splits)

lemma tried_none: "\<not> list_ex ok cs \<Longrightarrow> tried ok cs = cs"
  by (induction cs) simp_all

lemma discover_via_yields:
  "fst (discover_via t net X cache addr c) \<noteq> None \<longleftrightarrow> session_yields t net addr c"
  by (auto simp: discover_via_def session_yields_def split: prod.splits option.splits)

lemma credentials_loop_events:
  "events (snd (credentials_loop t net X addr cs eng)) =
     events eng @ map (Attempt t addr) (tried (session_yields t net addr) cs)"
proof (induction cs arbitrary: eng)
  case Nil
  then show ?case by simp
next
  case (Cons c cs)
  obtain found cache' where d: "discover_via t net X (detector_cache eng) addr c = (found, cache')"
    by (cases "discover_via t net X (detector_cache eng) addr c")
  with discover_via_yields[of t net X "detector_cache eng" addr c]
  have y: "session_yields t net addr c \<longleftrightarrow> found \<noteq> None" by simp
  show ?case
    by (cases found) (simp_all add: d y Cons.IH)
qed

lemma credentials_loop_found:
  "fst (credentials_loop t net X addr cs eng) = None
     \<longleftrightarrow> \<not> list_ex (session_yields t net addr) cs"
proof (induction cs arbitrary: eng)
  case Nil
  then show ?case by simp
next
  case (Cons c cs)
  obtain found cache' where d: "discover_via t net X (detector_cache eng) addr c = (found, cache')"
    by (cases "discover_via t net X (detector_cache eng) addr c")
  with discover_via_yields[of t net X "detector_cache eng" addr c]
  have y: "session_yields t net addr c \<longleftrightarrow> found \<noteq> None" by simp
  show ?case
    by (cases found) (simp_all add: d y Cons.IH)
qed

lemma has_management_flag:
  "get_flag (detect_all_protocols scan addr) ''has_management''
     \<longleftrightarrow> get_flag (detect_all_protocols scan addr) ''ssh''
         \<or> get_flag (detect_all_protocols scan addr) ''telnet''"
  by (simp add: detect_all_protocols_def Let_def get_flag_def)


lemma discover_single_device_events:
  "events (snd (discover_single_device net X valid_ip now eng addr cl)) =
     events eng @ [Scan addr]
     @ (if \<not> get_flag (detect_all_protocols (scan_ports net) addr) ''has_management'' then []
        else (if get_flag (detect_all_protocols (scan_ports net) addr) ''ssh''
              then map (Attempt SSH addr) (tried (session_yields SSH net addr) cl) else [])
           @ (if get_flag (detect_all_protocols (scan_ports net) addr) ''ssh''
                 \<and> list_ex (session_yields SSH net addr) cl then []
              else if get_flag (detect_all_protocols (scan_ports net) addr) ''telnet''
                   then map (Attempt TELNET addr) (tried (session_yields TELNET net addr) cl)
                   else []))"
proof -
  let ?info = "detect_all_protocols (scan_ports net) addr"
  let ?eng0 = "eng\<lparr>events := events eng @ [Scan addr]\<rparr>"
  obtain r1 e1 where c1: "credentials_loop SSH net X addr cl ?eng0 = (r1, e1)"
    by (cases "credentials_loop SSH net X addr cl ?eng0")
  have ev1: "events e1 = events eng @ [Scan addr]
               @ map (Attempt SSH addr) (tried (session_yields SSH net addr) cl)"
    using credentials_loop_events[of SSH net X addr cl ?eng0] c1 by simp
  have f1: "r1 = None \<longleftrightarrow> \<not> list_ex (session_yields SSH net addr) cl"
    using credentials_loop_found[of SSH net X addr cl ?eng0] c1 by simp
  let ?s1 = "if get_flag ?info ''ssh'' then (r1, e1) else (None, ?eng0)"
  obtain r2 e2 where c2: "credentials_loop TELNET net X addr cl (snd ?s1) = (r2, e2)"
    by (cases "credentials_loop TELNET net X addr cl (snd ?s1)")
  have ev2: "events e2 = events (snd ?s1)
               @ map (Attempt TELNET addr) (tried (session_yields TELNET net addr) cl)"
    using credentials_loop_events[of TELNET net X addr cl "snd ?s1"] c2 by simp
  show ?thesis
  proof (cases "get_flag ?info ''has_management''")
    case False
    then show ?thesis by (simp add: discover_single_device_def Let_def)
  next
    case mg: True
    show ?thesis
    proof (cases "get_flag ?info ''ssh''")
      case ssh: True
      show ?thesis
      proof (cases r1)
        case None
        with f1 have nl: "\<not> list_ex (session_yields SSH net addr) cl" by simp
        from ssh c2 have c2': "credentials_loop TELNET net X addr cl e1 = (r2, e2)" by simp
        from ssh ev2 have ev2': "events e2 = events e1
               @ map (Attempt TELNET addr) (tried (session_yields TELNET net addr) cl)" by simp
        show ?thesis
          using mg ssh None nl
          by (cases r2)
             (auto simp: discover_single_device_def Let_def c1 c2' ev1 ev2' split: prod.splits)
      next
        case (Some a)
        with f1 have yl: "list_ex (session_yields SSH net addr) cl" by simp
        show ?thesis
          using mg ssh Some yl
          by (auto simp: discover_single_device_def Let_def c1 ev1 split: prod.splits)
      qed
    next
      case nossh: False
      from nossh c2 have c2': "credentials_loop TELNET net X addr cl ?eng0 = (r2, e2)" by simp
      from nossh ev2 have ev2': "events e2 = events eng @ [Scan addr]
               @ map (Attempt TELNET addr) (tried (session_yields TELNET net addr) cl)" by simp
      show ?thesis
        using mg nossh
        by (cases r2)
           (auto simp: discover_single_device_def Let_def c2' ev2' split: prod.splits)
    qed
  qed
qed

lemma detect_all_protocols_flag:
  assumes "(proto, ports) \<in> set PROTOCOL_PORTS"
  shows "get_flag (detect_all_protocols scan addr) proto
           \<longleftrightarrow> (\<exists>port \<in> set ports. port \<in> set (scan addr (concat (map snd PROTOCOL_PORTS))))"
proof -
  have mem: "proto \<in> fst ` set PROTOCOL_PORTS" using assms by (force simp: image_iff)
  have "proto \<noteq> ''has_management''" "proto \<noteq> ''has_web''"
    using catalogue_keys(3) mem by blast+
  then have "detect_all_protocols scan addr proto =
      protocol_loop PROTOCOL_PORTS (scan addr (concat (map snd PROTOCOL_PORTS)))
        [''open_ports'' \<mapsto> Ports (scan addr (concat (map snd PROTOCOL_PORTS)))] proto"
    by (simp add: detect_all_protocols_def Let_def)
  then show ?thesis
    by (simp add: get_flag_def protocol_loop_flag[OF catalogue_keys(1,2) assms])
qed

lemma demo_flags:
  "get_flag (detect_all_protocols demo_scan ''10.0.0.5'') ''ssh''"
  "get_flag (detect_all_protocols demo_scan ''10.0.0.5'') ''telnet''"
  "get_flag (detect_all_protocols demo_scan ''10.0.0.5'') ''has_management''"
proof -
  have ops: "demo_scan ''10.0.0.5'' (concat (map snd PROTOCOL_PORTS)) = [2222, 23, 22]"
    by (simp add: demo_scan_def PROTOCOL_PORTS_def)
  have m1: "(''ssh'', [22, 2222, 22222]) \<in> set PROTOCOL_PORTS"
    and m2: "(''telnet'', [23, 2323]) \<in> set PROTOCOL_PORTS"
    by (simp_all add: PROTOCOL_PORTS_def)
  show a: "get_flag (detect_all_protocols demo_scan ''10.0.0.5'') ''ssh''"
    by (simp add: detect_all_protocols_flag[OF m1] ops)
  show "get_flag (detect_all_protocols demo_scan ''10.0.0.5'') ''telnet''"
    by (simp add: detect_all_protocols_flag[OF m2] ops)
  show "get_flag (detect_all_protocols demo_scan ''10.0.0.5'') ''has_management''"
    using a by (simp add: has_management_flag)
qed

lemma demo_sessions:
  "session_yields t demo_net ''10.0.0.5'' (demo_credentials name)
     \<longleftrightarrow> t = SSH \<and> name = ''carol''"
  by (simp add: session_yields_def demo_net_def demo_credentials_def DISCOVERY_COMMANDS_def
        strip_def)




text \<open>
  Claim C1. When the protocol surface of a host shows ssh open, the calls the engine
  makes for it are, in this order: the port scan; one SSH attempt per credential, in
  the order of the caller's list, up to and including the first credential whose
  discovery succeeds; and Telnet attempts only if no credential succeeded over SSH,
  in which case the whole list was tried over SSH, and then (if telnet is open) again
  in list order up to the first success. A credential succeeds when \<open>discover_via_ssh\<close>
  returns a dictionary: the client connected and a discovery command gave output.
\<close>

theorem ssh_first_then_telnet:
  assumes "get_flag (detect_all_protocols (scan_ports net) addr) ''ssh''"
  shows "events (snd (discover_single_device net X valid_ip now eng addr cl)) =
           events eng @ [Scan addr]
           @ map (Attempt SSH addr) (tried (session_yields SSH net addr) cl)
           @ (if list_ex (session_yields SSH net addr) cl then []
              else if get_flag (detect_all_protocols (scan_ports net) addr) ''telnet''
                   then map (Attempt TELNET addr) (tried (session_yields TELNET net addr) cl)
                   else [])
     \<and> (\<not> list_ex (session_yields SSH net addr) cl
          \<longrightarrow> tried (session_yields SSH net addr) cl = cl)"
  using assms has_management_flag[of "scan_ports net" addr]
  by (simp add: discover_single_device_events tried_none)


theorem ssh_first_then_telnet_witness:
  "events (snd (discover_single_device demo_net demo_extractors (\<lambda>a. True) ''2026-11-04''
             demo_engine ''10.0.0.5''
             [demo_credentials ''alice'', demo_credentials ''bob'', demo_credentials ''carol'']))
     = [Scan ''10.0.0.5'',
        Attempt SSH ''10.0.0.5'' (demo_credentials ''alice''),
        Attempt SSH ''10.0.0.5'' (demo_credentials ''bob''),
        Attempt SSH ''10.0.0.5'' (demo_credentials ''carol'')]"
proof -
  have ssh: "get_flag (detect_all_protocols (scan_ports demo_net) ''10.0.0.5'') ''ssh''"
    using demo_flags(1) by (simp add: demo_net_def)
  from ssh_first_then_telnet[OF ssh, of demo_extractors "\<lambda>a. True" "''2026-11-04''" demo_engine
      "[demo_credentials ''alice'', demo_credentials ''bob'', demo_credentials ''carol'']"]
  show ?thesis
    by (simp add: demo_sessions demo_engine_def)
qed











section \<open>Properties of the CIDR expansion\<close>













end
